theory Spec2Isabelle
  imports Complex_Main "HOL-Library.Word"
begin

section \<open>Explicit kernel methods notebook: the input function\<close>

text \<open>
  The notebook loads MNIST through the framework and wraps each split in an input
  function:
  \<^verbatim>\<open>
  def get_input_fn(dataset_split, batch_size, capacity=10000, min_after_dequeue=3000):
    def _input_fn():
      images_batch, labels_batch = tf.train.shuffle_batch(
          tensors=[dataset_split.images, dataset_split.labels.astype(np.int32)],
          batch_size=batch_size, capacity=capacity,
          min_after_dequeue=min_after_dequeue, enqueue_many=True, num_threads=4)
      features_map = {'images': images_batch}
      return features_map, labels_batch
    return _input_fn
  \<close>
  A split holds one array of images (one row of pixel intensities per sample) and one
  array of integer labels.
\<close>

record dataset_split =
  images :: "real list list"
  labels :: "int list"

record datasets =
  train :: dataset_split
  validation :: dataset_split
  test :: dataset_split

text \<open>
  \<open>labels.astype(np.int32)\<close>: every label becomes a 32-bit two's complement integer;
  a value outside the range wraps around.
\<close>

definition astype_int32 :: "int list \<Rightarrow> 32 word list" where
  "astype_int32 ls = map word_of_int ls"

text \<open>
  The keyword arguments of one call of \<open>tf.train.shuffle_batch\<close>. The operation
  itself belongs to the framework: it is a parameter of the model, a function from the
  call and the state of the framework's queue to the two batches and the new state.
\<close>

record shuffle_batch_call =
  tensors :: "real list list \<times> 32 word list"
  batch_size :: int
  capacity :: int
  min_after_dequeue :: int
  enqueue_many :: bool
  num_threads :: int

type_synonym 'q shuffle_batch =
  "shuffle_batch_call \<Rightarrow> 'q \<Rightarrow> (real list list \<times> 32 word list) \<times> 'q"

text \<open>
  The closure \<open>_input_fn\<close> is the record of the variables it captures; the defaults of
  \<open>get_input_fn\<close> are written out.
\<close>

record input_fn_closure =
  closure_dataset_split :: dataset_split
  closure_batch_size :: int
  closure_capacity :: int
  closure_min_after_dequeue :: int

definition get_input_fn_full ::
  "dataset_split \<Rightarrow> int \<Rightarrow> int \<Rightarrow> int \<Rightarrow> input_fn_closure" where
  "get_input_fn_full ds bs cap mad =
     \<lparr>closure_dataset_split = ds, closure_batch_size = bs,
      closure_capacity = cap, closure_min_after_dequeue = mad\<rparr>"

definition get_input_fn :: "dataset_split \<Rightarrow> int \<Rightarrow> input_fn_closure" where
  "get_input_fn ds bs = get_input_fn_full ds bs 10000 3000"

text \<open>The call that \<open>_input_fn\<close> hands to the framework.\<close>

definition input_fn_call :: "input_fn_closure \<Rightarrow> shuffle_batch_call" where
  "input_fn_call f =
     \<lparr>tensors = (images (closure_dataset_split f),
                 astype_int32 (labels (closure_dataset_split f))),
      batch_size = closure_batch_size f,
      capacity = closure_capacity f,
      min_after_dequeue = closure_min_after_dequeue f,
      enqueue_many = True,
      num_threads = 4\<rparr>"

text \<open>Invoking \<open>_input_fn\<close>: one call of the operation, then the features dictionary.\<close>

definition input_fn ::
  "'q shuffle_batch \<Rightarrow> input_fn_closure \<Rightarrow> 'q
     \<Rightarrow> ((string \<rightharpoonup> real list list) \<times> 32 word list) \<times> 'q" where
  "input_fn shuffle f q =
     (case shuffle (input_fn_call f) q of
        ((images_batch, labels_batch), q') \<Rightarrow>
          (([''images'' \<mapsto> images_batch], labels_batch), q'))"

definition train_input_fn :: "datasets \<Rightarrow> input_fn_closure" where
  "train_input_fn data = get_input_fn (train data) 256"

definition eval_input_fn :: "datasets \<Rightarrow> input_fn_closure" where
  "eval_input_fn data = get_input_fn (validation data) 5000"

text \<open>
  What the framework documents of \<open>shuffle_batch\<close> with \<open>enqueue_many=True\<close>, for
  one call in one state: each batch has \<open>batch_size\<close> entries and every entry is one
  of the rows enqueued.
\<close>

definition batches_of_call :: "'q shuffle_batch \<Rightarrow> shuffle_batch_call \<Rightarrow> 'q \<Rightarrow> bool" where
  "batches_of_call shuffle c q =
     (case shuffle c q of
        ((ib, lb), q') \<Rightarrow>
          int (length ib) = batch_size c \<and> int (length lb) = batch_size c \<and>
          set ib \<subseteq> set (fst (tensors c)) \<and> set lb \<subseteq> set (snd (tensors c)))"

text \<open>A sample operation for evaluation: it repeats the first enqueued row.\<close>

definition first_row_shuffle :: "nat shuffle_batch" where
  "first_row_shuffle c q =
     ((replicate (nat (batch_size c)) (hd (fst (tensors c))),
       replicate (nat (batch_size c)) (hd (snd (tensors c)))), Suc q)"

section \<open>Properties of the input function\<close>

lemma astype_int32_in_range:
  "\<forall>k\<in>set ls. - (2 ^ 31) \<le> k \<and> k < 2 ^ 31 \<Longrightarrow> map sint (astype_int32 ls) = ls"
  by (induction ls)
    (simp_all add: astype_int32_def sint_sbintrunc' signed_take_bit_int_eq_self)

lemma astype_int32_wraps: "astype_int32 [4294967299, - 1] = [3, 4294967295]"
  by (simp add: astype_int32_def)

lemma input_fn_call_get_input_fn:
  "input_fn_call (get_input_fn ds bs) =
     \<lparr>tensors = (images ds, astype_int32 (labels ds)), batch_size = bs, capacity = 10000,
      min_after_dequeue = 3000, enqueue_many = True, num_threads = 4\<rparr>"
  by (simp add: input_fn_call_def get_input_fn_def get_input_fn_full_def)

text \<open>
  C9: for every dataset split \<open>ds\<close> and batch size \<open>bs\<close>, invoking the input function
  that \<open>get_input_fn ds bs\<close> returns yields a features dictionary whose only key is
  \<open>'images'\<close>, holding the image batch of the one \<open>shuffle_batch\<close> call, paired with
  the label batch of that call. The labels handed to the call are the split's labels cast
  to 32-bit integers (unchanged when read back, if they fit), and the batch size of the
  call is the one given when the closure was made: 256 for \<open>train_input_fn\<close>, 5000 for
  \<open>eval_input_fn\<close>. Where the operation batches as documented, the label batch has that
  many labels and each is the cast of a label of the split.
\<close>

theorem get_input_fn_features_and_labels:
  fixes shuffle :: "'q shuffle_batch"
  shows
    "dom (fst (fst (input_fn shuffle (get_input_fn ds bs) q))) = {''images''} \<and>
     fst (input_fn shuffle (get_input_fn ds bs) q) =
       (case fst (shuffle (input_fn_call (get_input_fn ds bs)) q) of
          (ib, lb) \<Rightarrow> ([''images'' \<mapsto> ib], lb)) \<and>
     snd (tensors (input_fn_call (get_input_fn ds bs))) = astype_int32 (labels ds) \<and>
     ((\<forall>k\<in>set (labels ds). - (2 ^ 31) \<le> k \<and> k < 2 ^ 31) \<longrightarrow>
        map sint (snd (tensors (input_fn_call (get_input_fn ds bs)))) = labels ds) \<and>
     batch_size (input_fn_call (get_input_fn ds bs)) = bs \<and>
     batch_size (input_fn_call (train_input_fn data)) = 256 \<and>
     batch_size (input_fn_call (eval_input_fn data)) = 5000 \<and>
     (batches_of_call shuffle (input_fn_call (get_input_fn ds bs)) q \<longrightarrow>
        int (length (snd (fst (input_fn shuffle (get_input_fn ds bs) q)))) = bs \<and>
        (\<forall>l\<in>set (snd (fst (input_fn shuffle (get_input_fn ds bs) q))).
           \<exists>k\<in>set (labels ds). l = word_of_int k))"
proof -
  let ?c = "input_fn_call (get_input_fn ds bs)"
  let ?r = "input_fn shuffle (get_input_fn ds bs) q"
  obtain ib lb q' where s: "shuffle ?c q = ((ib, lb), q')"
    by (metis prod.exhaust)
  then have r: "fst ?r = ([''images'' \<mapsto> ib], lb)"
    by (simp add: input_fn_def)
  have keys: "dom (fst (fst ?r)) = {''images''}"
    by (simp add: r)
  have result: "fst ?r = (case fst (shuffle ?c q) of (ib, lb) \<Rightarrow> ([''images'' \<mapsto> ib], lb))"
    by (simp add: r s)
  have cast: "snd (tensors ?c) = astype_int32 (labels ds)"
    by (simp add: input_fn_call_get_input_fn)
  have unchanged: "map sint (snd (tensors ?c)) = labels ds"
    if "\<forall>k\<in>set (labels ds). - (2 ^ 31) \<le> k \<and> k < 2 ^ 31"
    using that by (simp add: cast astype_int32_in_range)
  have size: "batch_size ?c = bs"
    by (simp add: input_fn_call_get_input_fn)
  have train_size: "batch_size (input_fn_call (train_input_fn data)) = 256"
    by (simp add: train_input_fn_def input_fn_call_get_input_fn)
  have eval_size: "batch_size (input_fn_call (eval_input_fn data)) = 5000"
    by (simp add: eval_input_fn_def input_fn_call_get_input_fn)
  have batch: "int (length (snd (fst ?r))) = bs \<and>
      (\<forall>l\<in>set (snd (fst ?r)). \<exists>k\<in>set (labels ds). l = word_of_int k)"
    if "batches_of_call shuffle ?c q"
  proof -
    from that s have "int (length lb) = bs" and "set lb \<subseteq> set (astype_int32 (labels ds))"
      by (simp_all add: batches_of_call_def input_fn_call_get_input_fn)
    then show ?thesis
      by (auto simp: r astype_int32_def)
  qed
  from keys result cast unchanged size train_size eval_size batch show ?thesis
    by blast
qed

theorem get_input_fn_features_and_labels_witness:
  "batches_of_call first_row_shuffle
     (input_fn_call (get_input_fn \<lparr>images = [[0, 1], [1, 0]], labels = [7, 3]\<rparr> 256)) 0 \<and>
   fst (input_fn first_row_shuffle
     (get_input_fn \<lparr>images = [[0, 1], [1, 0]], labels = [7, 3]\<rparr> 256) 0) =
     ([''images'' \<mapsto> replicate 256 [0, 1]], replicate 256 7) \<and>
   map sint (astype_int32 [7, 3]) = [7, 3]"
proof -
  let ?ds = "\<lparr>images = [[0, 1], [1, 0]], labels = [7, 3]\<rparr>"
  have c: "batches_of_call first_row_shuffle (input_fn_call (get_input_fn ?ds 256)) 0"
    by (simp add: batches_of_call_def first_row_shuffle_def input_fn_call_get_input_fn
        astype_int32_def)
  have r: "fst (input_fn first_row_shuffle (get_input_fn ?ds 256) 0) =
     ([''images'' \<mapsto> replicate 256 [0, 1]], replicate 256 7)"
    by (simp add: input_fn_def first_row_shuffle_def input_fn_call_get_input_fn
        astype_int32_def)
  show ?thesis
    using c r get_input_fn_features_and_labels [of first_row_shuffle ?ds 256 0]
    by (simp add: astype_int32_def)
qed

end
